theory Spec2Isabelle
  imports Main "HOL-Library.Word"
begin

unbundle bit_operations_syntax

section \<open>The C++ type \<open>double\<close>: IEEE 754 binary64\<close>

text \<open>
  \<open>DeltaR::update\<close> compares and multiplies values of type \<open>double\<close>, and one of
  its operands is \<open>std::numeric_limits<double>::infinity()\<close>. The arithmetic is that of
  a platform that evaluates \<open>double\<close> expressions in binary64 (x86-64, AArch64), in the
  default rounding mode and with gradual underflow. A \<open>double\<close> is modelled
  as what it is, its 64 bits: bit 63 is the sign, bits 62..52 the biased exponent, bits
  51..0 the fraction. Every finite double is an integer multiple of \<open>2 ^ -1074\<close>, so its
  absolute value is held exactly by a natural number, its \<open>magnitude\<close>, counted in units of
  \<open>2 ^ -1074\<close>. The same formula gives an infinity the magnitude \<open>2 ^ 2098\<close>, which
  stands for \<open>2 ^ 1024\<close> and is above every finite magnitude.
\<close>

type_synonym double = "64 word"

definition sign_bit :: "double \<Rightarrow> bool" where
  "sign_bit d = (2 ^ 63 \<le> unat d)"

definition biased_exponent :: "double \<Rightarrow> nat" where
  "biased_exponent d = unat d div 2 ^ 52 mod 2 ^ 11"

definition fraction :: "double \<Rightarrow> nat" where
  "fraction d = unat d mod 2 ^ 52"

definition is_nan :: "double \<Rightarrow> bool" where
  "is_nan d = (biased_exponent d = 2047 \<and> fraction d \<noteq> 0)"

definition is_infinite :: "double \<Rightarrow> bool" where
  "is_infinite d = (biased_exponent d = 2047 \<and> fraction d = 0)"

definition is_finite :: "double \<Rightarrow> bool" where
  "is_finite d = (biased_exponent d \<noteq> 2047)"

definition magnitude :: "double \<Rightarrow> nat" where
  "magnitude d =
     (if biased_exponent d = 0 then fraction d
      else (2 ^ 52 + fraction d) * 2 ^ (biased_exponent d - 1))"

definition scaled :: "double \<Rightarrow> int" where
  "scaled d = (if sign_bit d then - int (magnitude d) else int (magnitude d))"

text \<open>
  The comparisons \<open>a < b\<close> and \<open>a <= b\<close> of C++: false as soon as an operand is a NaN,
  and the order of the values otherwise (\<open>-0.0\<close> and \<open>0.0\<close> are equal).
\<close>

definition double_less :: "double \<Rightarrow> double \<Rightarrow> bool" where
  "double_less a b = (\<not> is_nan a \<and> \<not> is_nan b \<and> scaled a < scaled b)"

definition double_le :: "double \<Rightarrow> double \<Rightarrow> bool" where
  "double_le a b = (\<not> is_nan a \<and> \<not> is_nan b \<and> scaled a \<le> scaled b)"

text \<open>\<open>std::abs\<close> on a double clears the sign bit.\<close>

definition double_abs :: "double \<Rightarrow> double" where
  "double_abs d = d AND 0x7FFFFFFFFFFFFFFF"

text \<open>
  Multiplication rounds the exact product to the nearest double, ties to the even
  significand (the default rounding mode). The exact product of two magnitudes is a
  natural number in units of \<open>2 ^ -2148\<close>. \<open>round_magnitude\<close> drops its low \<open>s\<close> bits,
  where \<open>s\<close> leaves 53 significant bits and never less than the 1074 bits below the
  smallest subnormal, and gives the result back in units of \<open>2 ^ -1074\<close>. A rounded
  magnitude of \<open>2 ^ 2098\<close> or more overflows to infinity. Which NaN an invalid product
  gives is left to the platform by C++; the model gives the canonical quiet NaN.
\<close>

fun bit_length :: "nat \<Rightarrow> nat" where
  "bit_length n = (if n = 0 then 0 else Suc (bit_length (n div 2)))"

declare bit_length.simps [simp del]

definition round_nearest_even :: "nat \<Rightarrow> nat \<Rightarrow> nat" where
  "round_nearest_even n s =
     (let q = n div 2 ^ s; r = n mod 2 ^ s
      in if 2 ^ s < 2 * r \<or> (2 * r = 2 ^ s \<and> odd q) then q + 1 else q)"

definition round_magnitude :: "nat \<Rightarrow> nat" where
  "round_magnitude n =
     (let s = max 1074 (bit_length n - 53)
      in round_nearest_even n s * 2 ^ (s - 1074))"

definition encode_magnitude :: "nat \<Rightarrow> nat" where
  "encode_magnitude k =
     (if 2 ^ 2098 \<le> k then 2047 * 2 ^ 52
      else let e = bit_length k - 53 in e * 2 ^ 52 + k div 2 ^ e)"

text \<open>
  A magnitude is that of a double when it has at most 53 significant bits: the bits
  below the leading 53 are zero.
\<close>

definition representable :: "nat \<Rightarrow> bool" where
  "representable k = (k mod 2 ^ (bit_length k - 53) = 0)"

definition make_double :: "bool \<Rightarrow> nat \<Rightarrow> double" where
  "make_double negative k = of_nat ((if negative then 2 ^ 63 else 0) + encode_magnitude k)"

definition quiet_nan :: double where
  "quiet_nan = 0x7FF8000000000000"

definition double_mult :: "double \<Rightarrow> double \<Rightarrow> double" where
  "double_mult a b =
     (if is_nan a \<or> is_nan b \<or> (is_infinite a \<and> magnitude b = 0)
         \<or> (magnitude a = 0 \<and> is_infinite b)
      then quiet_nan
      else if is_infinite a \<or> is_infinite b
      then make_double (sign_bit a \<noteq> sign_bit b) (2 ^ 2098)
      else make_double (sign_bit a \<noteq> sign_bit b)
             (round_magnitude (magnitude a * magnitude b)))"

text \<open>
  The literals of the source, as the bits the compiler stores for them:
  \<open>std::numeric_limits<double>::infinity()\<close>, \<open>0.0\<close>, \<open>1.e-3\<close>, \<open>0.99\<close> and \<open>1.01\<close>.
\<close>

definition double_infinity :: double where
  "double_infinity = 0x7FF0000000000000"

definition double_zero :: double where
  "double_zero = 0"

definition delta_r_control_error_threshold :: double where
  "delta_r_control_error_threshold = 0x3F50624DD2F1A9FC"

definition time_tolerance_for_delta_r_in_danger :: double where
  "time_tolerance_for_delta_r_in_danger = 0x3FEFAE147AE147AE"

definition non_oscillation_factor :: double where
  "non_oscillation_factor = 0x3FF028F5C28F5C29"

definition delta_r_state_decrease_factor :: double where
  "delta_r_state_decrease_factor = 0x3FEFAE147AE147AE"

text \<open>
  That these bits are the literals is checked below with \<open>nearest_to_ratio p q d\<close>:
  \<open>d\<close> is finite and its absolute value differs from \<open>p / q\<close> by at most half a unit
  in the last place of \<open>d\<close>.
\<close>

definition nearest_to_ratio :: "nat \<Rightarrow> nat \<Rightarrow> double \<Rightarrow> bool" where
  "nearest_to_ratio p q d =
     (is_finite d \<and>
      2 * \<bar>int (magnitude d) * int q - int p * 2 ^ 1074\<bar>
        \<le> int q * 2 ^ (biased_exponent d - 1))"

section \<open>The data of the size control system\<close>

text \<open>
  \<open>State\<close> is the polymorphic class of the source; \<open>Info::state\<close> owns one object of
  one of its five subclasses, none of which has a data member.
\<close>

datatype State = Initial | AhSpeed | DeltaR | DeltaRDriftInward | DeltaRDriftOutward

text \<open>
  Modelled from the spec: the declarations of \<open>Info\<close>, \<open>StateUpdateArgs\<close>,
  \<open>CrossingTimeInfo\<close> and \<open>ControlErrorArgs\<close> (their headers are not among the source
  files). The fields are the ones \<open>DeltaR.cpp\<close> reads and writes, with the types the
  data model gives them: the predicted times and the suggested time scale are
  \<open>std::optional<double>\<close>, as the calls of \<open>value_or\<close> and \<open>has_value\<close> on them show.
\<close>

record Info =
  state :: State
  damping_time :: double
  suggested_time_scale :: "double option"
  discontinuous_change_has_occurred :: bool
  target_char_speed :: "double option"

record StateUpdateArgs =
  min_char_speed :: double
  min_comoving_char_speed :: double
  control_error_delta_r :: double

record CrossingTimeInfo =
  t_char_speed :: "double option"
  t_comoving_char_speed :: "double option"
  t_delta_radius :: "double option"
  char_speed_will_hit_zero_first :: bool
  horizon_will_hit_excision_boundary_first :: bool

record ControlErrorArgs =
  control_error_delta_r :: double

text \<open>\<open>std::optional::value_or\<close> and \<open>std::optional::has_value\<close>.\<close>

definition value_or :: "'a option \<Rightarrow> 'a \<Rightarrow> 'a" where
  "value_or x d = (case x of None \<Rightarrow> d | Some v \<Rightarrow> v)"

definition has_value :: "'a option \<Rightarrow> bool" where
  "has_value x = (x \<noteq> None)"

text \<open>
  What is streamed into the \<open>std::stringstream\<close>: string literals, doubles and optional
  doubles. The returned trace is the list of the items in the order they are streamed;
  how a number is printed is left to the stream.
\<close>

datatype ss_item = Text string | Number double | OptionalNumber "double option"

section \<open>\<open>DeltaR::update\<close> and \<open>DeltaR::control_error\<close>\<close>

definition delta_radius_is_in_danger :: "Info \<Rightarrow> CrossingTimeInfo \<Rightarrow> bool" where
  "delta_radius_is_in_danger info crossing_time_info =
     (horizon_will_hit_excision_boundary_first crossing_time_info \<and>
      double_less (value_or (t_delta_radius crossing_time_info) double_infinity)
        (double_mult (damping_time info) time_tolerance_for_delta_r_in_danger))"

definition char_speed_is_in_danger :: "Info \<Rightarrow> CrossingTimeInfo \<Rightarrow> bool" where
  "char_speed_is_in_danger info crossing_time_info =
     (char_speed_will_hit_zero_first crossing_time_info \<and>
      double_less (value_or (t_char_speed crossing_time_info) double_infinity)
        (damping_time info) \<and>
      \<not> delta_radius_is_in_danger info crossing_time_info)"

definition DeltaR_update ::
  "Info \<Rightarrow> StateUpdateArgs \<Rightarrow> CrossingTimeInfo \<Rightarrow> Info \<times> ss_item list" where
  "DeltaR_update info update_args crossing_time_info =
     (if char_speed_is_in_danger info crossing_time_info then
        (let ss = [Text ''Current state DeltaR. Char speed in danger.''];
             (info, ss) =
               (if has_value (t_comoving_char_speed crossing_time_info) \<or>
                   double_less (min_comoving_char_speed update_args) double_zero
                then
                  (let info = info\<lparr>discontinuous_change_has_occurred := True\<rparr>;
                       info = info\<lparr>state := AhSpeed\<rparr>;
                       info = info\<lparr>target_char_speed :=
                         Some (double_mult (min_char_speed update_args)
                                 non_oscillation_factor)\<rparr>
                   in (info,
                       ss @ [Text '' Switching to AhSpeed.\<newline>'',
                             Text '' Target char speed = '',
                             OptionalNumber (target_char_speed info),
                             Text ''\<newline>'']))
                else (info, ss @ [Text '' Staying in DeltaR.\<newline>'']));
             info = info\<lparr>suggested_time_scale := t_char_speed crossing_time_info\<rparr>
         in (info,
             ss @ [Text '' Suggested timescale = '',
                   OptionalNumber (suggested_time_scale info)]))
      else if delta_radius_is_in_danger info crossing_time_info then
        (let info = info\<lparr>suggested_time_scale := t_delta_radius crossing_time_info\<rparr>
         in (info,
             [Text ''Current state DeltaR. Delta radius in danger. Staying in DeltaR.\<newline>'',
              Text '' Suggested timescale = '',
              OptionalNumber (suggested_time_scale info)]))
      else if double_less double_zero (min_comoving_char_speed update_args) \<and>
              double_less delta_r_control_error_threshold
                (double_abs (StateUpdateArgs.control_error_delta_r update_args))
      then
        (let info = info\<lparr>suggested_time_scale :=
               Some (double_mult (damping_time info) delta_r_state_decrease_factor)\<rparr>
         in (info,
             [Text ''Current state DeltaR. Min comoving char speed '',
              Number (min_comoving_char_speed update_args),
              Text '' > 0 and abs(control_error_delta_r) '',
              Number (double_abs (StateUpdateArgs.control_error_delta_r update_args)),
              Text '' > threshold '',
              Number delta_r_control_error_threshold,
              Text ''. Staying in DeltaR.\<newline>'',
              Text '' Suggested timescale = '',
              OptionalNumber (suggested_time_scale info)]))
      else
        (info, [Text ''Current state DeltaR. No change necessary. Staying in DeltaR.'']))"

definition DeltaR_control_error :: "Info \<Rightarrow> ControlErrorArgs \<Rightarrow> double" where
  "DeltaR_control_error info control_error_args =
     ControlErrorArgs.control_error_delta_r control_error_args"

text \<open>
  The trace names the branch that was taken; the third branch, which shrinks the time
  scale because the control error is large, is the only one whose trace starts with the
  words below.
\<close>

definition names_shrink_branch :: "ss_item list \<Rightarrow> bool" where
  "names_shrink_branch ss =
     (take 1 ss = [Text ''Current state DeltaR. Min comoving char speed ''])"

text \<open>
  The invariant of \<open>Info::suggested_time_scale\<close>: absent, or positive and finite. The
  same is asked of the predicted crossing times.
\<close>

definition positive_finite :: "double \<Rightarrow> bool" where
  "positive_finite d = (double_less double_zero d \<and> is_finite d)"

definition absent_or_positive_finite :: "double option \<Rightarrow> bool" where
  "absent_or_positive_finite x = (case x of None \<Rightarrow> True | Some t \<Rightarrow> positive_finite t)"

text \<open>
  \<open>DeltaR::update\<close> assigns to \<open>info->suggested_time_scale\<close> in its first three
  branches, and only there.
\<close>

definition assigns_suggested_time_scale ::
  "Info \<Rightarrow> StateUpdateArgs \<Rightarrow> CrossingTimeInfo \<Rightarrow> bool" where
  "assigns_suggested_time_scale info update_args crossing_time_info =
     (char_speed_is_in_danger info crossing_time_info \<or>
      delta_radius_is_in_danger info crossing_time_info \<or>
      (double_less double_zero (min_comoving_char_speed update_args) \<and>
       double_less delta_r_control_error_threshold
         (double_abs (StateUpdateArgs.control_error_delta_r update_args))))"

section \<open>The scenarios of the specification\<close>

text \<open>
  The doubles of the scenarios, as their bits: \<open>10.0\<close>, \<open>9.9\<close>, \<open>5.0\<close>, \<open>3.0\<close>,
  \<open>0.5\<close>, \<open>2e-3\<close>, \<open>-0.1\<close>, \<open>-0.2\<close> and \<open>-0.202\<close>.
\<close>

definition double_10_0 :: double where "double_10_0 = 0x4024000000000000"
definition double_9_9 :: double where "double_9_9 = 0x4023CCCCCCCCCCCD"
definition double_5_0 :: double where "double_5_0 = 0x4014000000000000"
definition double_3_0 :: double where "double_3_0 = 0x4008000000000000"
definition double_0_5 :: double where "double_0_5 = 0x3FE0000000000000"
definition double_2em3 :: double where "double_2em3 = 0x3F60624DD2F1A9FC"
definition double_neg_0_1 :: double where "double_neg_0_1 = 0xBFB999999999999A"
definition double_neg_0_2 :: double where "double_neg_0_2 = 0xBFC999999999999A"
definition double_neg_0_202 :: double where "double_neg_0_202 = 0xBFC9DB22D0E56042"

text \<open>
  The smallest positive double, \<open>2 ^ -1074\<close> (about \<open>4.9e-324\<close>), and fifty times
  it (about \<open>2.47e-322\<close>); both are subnormal.
\<close>

definition denorm_min :: double where "denorm_min = 0x0000000000000001"
definition fifty_denorm_min :: double where "fifty_denorm_min = 0x0000000000000032"

text \<open>
  An \<open>Info\<close> in state DeltaR with \<open>damping_time = 10.0\<close> and a suggested time scale
  of \<open>0.5\<close>
  left by an earlier evaluation; an \<open>Info\<close> whose damping time is the smallest
  positive double; and the inputs of the scenarios.
\<close>

definition scenario_info :: Info where
  "scenario_info =
     \<lparr>state = DeltaR, damping_time = double_10_0, suggested_time_scale = Some double_0_5,
      discontinuous_change_has_occurred = False, target_char_speed = None\<rparr>"

definition tiny_damping_info :: Info where
  "tiny_damping_info =
     \<lparr>state = DeltaR, damping_time = denorm_min, suggested_time_scale = None,
      discontinuous_change_has_occurred = False, target_char_speed = None\<rparr>"

definition no_crossing :: CrossingTimeInfo where
  "no_crossing =
     \<lparr>t_char_speed = None, t_comoving_char_speed = None, t_delta_radius = None,
      char_speed_will_hit_zero_first = False,
      horizon_will_hit_excision_boundary_first = False\<rparr>"

definition horizon_crossing :: CrossingTimeInfo where
  "horizon_crossing =
     \<lparr>t_char_speed = None, t_comoving_char_speed = None, t_delta_radius = Some double_5_0,
      char_speed_will_hit_zero_first = False,
      horizon_will_hit_excision_boundary_first = True\<rparr>"

definition char_speed_crossing :: CrossingTimeInfo where
  "char_speed_crossing =
     \<lparr>t_char_speed = Some double_3_0, t_comoving_char_speed = None, t_delta_radius = None,
      char_speed_will_hit_zero_first = True,
      horizon_will_hit_excision_boundary_first = False\<rparr>"

definition large_error_args :: StateUpdateArgs where
  "large_error_args =
     \<lparr>min_char_speed = double_0_5, min_comoving_char_speed = double_0_5,
      control_error_delta_r = double_2em3\<rparr>"

definition threshold_error_args :: StateUpdateArgs where
  "threshold_error_args =
     \<lparr>min_char_speed = double_0_5, min_comoving_char_speed = double_0_5,
      control_error_delta_r = delta_r_control_error_threshold\<rparr>"

definition negative_speed_args :: StateUpdateArgs where
  "negative_speed_args =
     \<lparr>min_char_speed = double_neg_0_2, min_comoving_char_speed = double_neg_0_1,
      control_error_delta_r = double_zero\<rparr>"

section \<open>Facts about the arithmetic\<close>

subsection \<open>Comparisons\<close>

lemma double_le_not_less: "double_le a b \<Longrightarrow> \<not> double_less b a"
  by (simp add: double_le_def double_less_def)

lemma double_less_irrefl: "\<not> double_less a a"
  by (simp add: double_less_def)

lemma double_less_le_trans: "double_less a b \<Longrightarrow> double_le b c \<Longrightarrow> double_less a c"
  by (simp add: double_less_def double_le_def)

lemma double_less_imp_le: "double_less a b \<Longrightarrow> double_le a b"
  by (simp add: double_less_def double_le_def)

lemmas double_eval =
  double_less_def double_le_def is_nan_def scaled_def sign_bit_def magnitude_def
  biased_exponent_def fraction_def double_zero_def double_infinity_def
  delta_r_control_error_threshold_def

lemmas scenario_defs =
  scenario_info_def no_crossing_def horizon_crossing_def char_speed_crossing_def
  large_error_args_def threshold_error_args_def negative_speed_args_def

lemmas scenario_doubles =
  double_10_0_def double_9_9_def double_5_0_def double_3_0_def double_0_5_def
  double_2em3_def double_neg_0_1_def double_neg_0_2_def double_neg_0_202_def

subsection \<open>The literals\<close>

lemma source_literals:
  "nearest_to_ratio 1 1000 delta_r_control_error_threshold"
  "nearest_to_ratio 99 100 time_tolerance_for_delta_r_in_danger"
  "nearest_to_ratio 99 100 delta_r_state_decrease_factor"
  "nearest_to_ratio 101 100 non_oscillation_factor"
  "\<not> sign_bit delta_r_control_error_threshold"
  "\<not> sign_bit time_tolerance_for_delta_r_in_danger"
  "\<not> sign_bit delta_r_state_decrease_factor"
  "\<not> sign_bit non_oscillation_factor"
  "magnitude double_zero = 0"
  "is_infinite double_infinity" "\<not> sign_bit double_infinity"
  by (simp_all add: nearest_to_ratio_def is_finite_def is_infinite_def magnitude_def
      sign_bit_def biased_exponent_def fraction_def delta_r_control_error_threshold_def
      time_tolerance_for_delta_r_in_danger_def delta_r_state_decrease_factor_def
      non_oscillation_factor_def double_zero_def double_infinity_def)

lemma scenario_literals:
  "nearest_to_ratio 10 1 double_10_0" "\<not> sign_bit double_10_0"
  "nearest_to_ratio 99 10 double_9_9" "\<not> sign_bit double_9_9"
  "nearest_to_ratio 5 1 double_5_0" "\<not> sign_bit double_5_0"
  "nearest_to_ratio 3 1 double_3_0" "\<not> sign_bit double_3_0"
  "nearest_to_ratio 1 2 double_0_5" "\<not> sign_bit double_0_5"
  "nearest_to_ratio 2 1000 double_2em3" "\<not> sign_bit double_2em3"
  "nearest_to_ratio 1 10 double_neg_0_1" "sign_bit double_neg_0_1"
  "nearest_to_ratio 2 10 double_neg_0_2" "sign_bit double_neg_0_2"
  "nearest_to_ratio 202 1000 double_neg_0_202" "sign_bit double_neg_0_202"
  "magnitude denorm_min = 1" "magnitude fifty_denorm_min = 50"
  by (simp_all add: nearest_to_ratio_def is_finite_def magnitude_def sign_bit_def
      biased_exponent_def fraction_def double_10_0_def double_9_9_def double_5_0_def
      double_3_0_def double_0_5_def double_2em3_def double_neg_0_1_def double_neg_0_2_def
      double_neg_0_202_def denorm_min_def fifty_denorm_min_def)

subsection \<open>Bit lengths and scaling by powers of two\<close>

lemma bit_length_zero: "bit_length 0 = 0"
  by (simp add: bit_length.simps)

lemma bit_length_upper: "n < 2 ^ bit_length n"
proof (induction n rule: bit_length.induct)
  case (1 n)
  show ?case
  proof (cases "n = 0")
    case True
    then show ?thesis by simp
  next
    case False
    with 1 have "n div 2 < 2 ^ bit_length (n div 2)" by simp
    moreover from False have "bit_length n = Suc (bit_length (n div 2))"
      by (simp add: bit_length.simps)
    ultimately show ?thesis by simp
  qed
qed

lemma bit_length_lower: "0 < n \<Longrightarrow> 2 ^ (bit_length n - 1) \<le> n"
proof (induction n rule: bit_length.induct)
  case (1 n)
  then have bl: "bit_length n = Suc (bit_length (n div 2))"
    by (simp add: bit_length.simps)
  show ?case
  proof (cases "n div 2 = 0")
    case True
    then have "bit_length (n div 2) = 0" by (simp add: bit_length.simps)
    with bl 1 show ?thesis by simp
  next
    case False
    with 1 have "2 ^ (bit_length (n div 2) - 1) \<le> n div 2" by simp
    moreover from False have "0 < bit_length (n div 2)"
      by (simp add: bit_length.simps)
    ultimately have "2 ^ bit_length (n div 2) \<le> 2 * (n div 2)"
      by (cases "bit_length (n div 2)") simp_all
    with bl show ?thesis by simp
  qed
qed

lemma bit_length_eqI:
  assumes lo: "2 ^ k \<le> n" and hi: "n < 2 ^ Suc k"
  shows "bit_length n = Suc k"
proof -
  have pos: "0 < n"
    using lo by (cases "n = 0") simp_all
  have "(2::nat) ^ k < 2 ^ bit_length n"
    using lo bit_length_upper [of n] by (rule le_less_trans)
  then have a: "k < bit_length n"
    using power_less_imp_less_exp [of 2 k "bit_length n"] by simp
  have "(2::nat) ^ (bit_length n - 1) < 2 ^ Suc k"
    using bit_length_lower [OF pos] hi by (rule le_less_trans)
  then have "bit_length n - 1 < Suc k"
    using power_less_imp_less_exp [of 2 "bit_length n - 1" "Suc k"] by simp
  with a show ?thesis by simp
qed

lemma bit_length_mult_pow2: "0 < a \<Longrightarrow> bit_length (a * 2 ^ j) = bit_length a + j"
proof (induction j)
  case 0
  then show ?case by simp
next
  case (Suc j)
  then have "a * 2 ^ Suc j \<noteq> 0" by simp
  then have "bit_length (a * 2 ^ Suc j) = Suc (bit_length (a * 2 ^ Suc j div 2))"
    by (subst bit_length.simps) simp
  also have "a * 2 ^ Suc j div 2 = a * 2 ^ j" by simp
  finally show ?case using Suc by simp
qed

lemma pow2_split: "j \<le> s \<Longrightarrow> (2::nat) ^ s = 2 ^ (s - j) * 2 ^ j"
  by (simp flip: power_add)

lemma div_mult_pow2: "j \<le> s \<Longrightarrow> (a * 2 ^ j) div 2 ^ s = a div 2 ^ (s - j)" for a :: nat
  by (simp only: pow2_split [of j s] div_mult_mult2 [of "2 ^ j"] power_not_zero
      zero_neq_numeral not_False_eq_True)

lemma mod_mult_pow2:
  "j \<le> s \<Longrightarrow> (a * 2 ^ j) mod 2 ^ s = (a mod 2 ^ (s - j)) * 2 ^ j" for a :: nat
  by (simp only: pow2_split [of j s] mult_mod_left)

lemma round_nearest_even_scale:
  assumes "j \<le> s"
  shows "round_nearest_even (a * 2 ^ j) s = round_nearest_even a (s - j)"
proof -
  have p: "(2::nat) ^ s = 2 ^ (s - j) * 2 ^ j"
    using assms by (rule pow2_split)
  have "2 ^ s < 2 * (a mod 2 ^ (s - j) * 2 ^ j) \<longleftrightarrow> 2 ^ (s - j) < 2 * (a mod 2 ^ (s - j))"
    unfolding p by simp
  moreover have "2 * (a mod 2 ^ (s - j) * 2 ^ j) = 2 ^ s \<longleftrightarrow>
      2 * (a mod 2 ^ (s - j)) = 2 ^ (s - j)"
    unfolding p by simp
  ultimately show ?thesis
    by (simp only: round_nearest_even_def div_mult_pow2 [OF assms] mod_mult_pow2 [OF assms]
        Let_def)
qed

subsection \<open>Evaluating a product of two normal doubles\<close>

lemma magnitude_normal:
  "0 < biased_exponent d \<Longrightarrow>
     magnitude d = (2 ^ 52 + fraction d) * 2 ^ (biased_exponent d - 1)"
  by (simp add: magnitude_def)

lemma round_magnitude_scaled:
  assumes bl: "bit_length a = 53 + sh" and big: "1074 \<le> sh + j"
  shows "round_magnitude (a * 2 ^ j) = round_nearest_even a sh * 2 ^ (sh + j - 1074)"
proof -
  from bl have "0 < a"
    by (cases "a = 0") (simp_all add: bit_length_zero)
  then have "bit_length (a * 2 ^ j) = 53 + sh + j"
    by (simp add: bit_length_mult_pow2 bl)
  then have "round_magnitude (a * 2 ^ j) =
      round_nearest_even (a * 2 ^ j) (sh + j) * 2 ^ (sh + j - 1074)"
    using big by (simp add: round_magnitude_def max_def Let_def)
  then show ?thesis
    by (simp add: round_nearest_even_scale)
qed

lemma encode_magnitude_scaled:
  assumes lo: "2 ^ 52 \<le> r" and hi: "r < 2 ^ 53" and t: "t \<le> 2045"
  shows "encode_magnitude (r * 2 ^ t) = t * 2 ^ 52 + r"
proof -
  have "bit_length r = Suc 52"
    using lo hi by (intro bit_length_eqI) simp_all
  moreover from lo have "0 < r"
    by (cases "r = 0") simp_all
  ultimately have bl: "bit_length (r * 2 ^ t) = 53 + t"
    by (simp add: bit_length_mult_pow2)
  have "r * 2 ^ t < 2 ^ 53 * 2 ^ t"
    using hi by simp
  also have "\<dots> \<le> 2 ^ 53 * (2::nat) ^ 2045"
    using t by (intro mult_le_mono2 power_increasing) simp_all
  also have "\<dots> = 2 ^ 2098"
    by (simp only: flip: power_add) simp
  finally have "r * 2 ^ t < 2 ^ 2098" .
  then show ?thesis
    by (simp add: encode_magnitude_def bl Let_def)
qed

lemma double_mult_normal:
  assumes ea: "biased_exponent a = ea" "0 < ea" "ea < 2047"
      and eb: "biased_exponent b = eb" "0 < eb" "eb < 2047"
      and bl: "bit_length ((2 ^ 52 + fraction a) * (2 ^ 52 + fraction b)) = 53 + sh"
      and r: "round_nearest_even ((2 ^ 52 + fraction a) * (2 ^ 52 + fraction b)) sh = r"
             "2 ^ 52 \<le> r" "r < 2 ^ 53"
      and ex: "1076 \<le> sh + ea + eb" "sh + ea + eb \<le> 3121"
  shows "double_mult a b =
           of_nat ((if sign_bit a \<noteq> sign_bit b then 2 ^ 63 else 0)
                   + (sh + ea + eb - 1076) * 2 ^ 52 + r)"
proof -
  have fin: "\<not> is_nan a" "\<not> is_nan b" "\<not> is_infinite a" "\<not> is_infinite b"
    using ea eb by (simp_all add: is_nan_def is_infinite_def)
  have "magnitude a * magnitude b =
      (2 ^ 52 + fraction a) * (2 ^ 52 + fraction b) * (2 ^ (ea - 1) * 2 ^ (eb - 1))"
    using ea eb by (simp add: magnitude_normal)
  also have "(2::nat) ^ (ea - 1) * 2 ^ (eb - 1) = 2 ^ (ea + eb - 2)"
    using ea eb by (simp flip: power_add)
  finally have "round_magnitude (magnitude a * magnitude b) =
      r * 2 ^ (sh + (ea + eb - 2) - 1074)"
    using bl ex ea eb r by (simp add: round_magnitude_scaled)
  also have "sh + (ea + eb - 2) - 1074 = sh + ea + eb - 1076"
    using ea eb by simp
  finally have "double_mult a b =
      make_double (sign_bit a \<noteq> sign_bit b) (r * 2 ^ (sh + ea + eb - 1076))"
    using fin by (simp add: double_mult_def)
  moreover have "encode_magnitude (r * 2 ^ (sh + ea + eb - 1076)) =
      (sh + ea + eb - 1076) * 2 ^ 52 + r"
    using r ex by (intro encode_magnitude_scaled) simp_all
  ultimately show ?thesis
    by (simp only: make_double_def add.assoc)
qed

text \<open>\<open>10.0 * 0.99\<close> is the double \<open>9.9\<close>, and \<open>-0.2 * 1.01\<close> is the double \<open>-0.202\<close>.\<close>

lemma double_mult_10_by_099:
  "double_mult double_10_0 delta_r_state_decrease_factor = double_9_9"
proof -
  let ?a = "0x4024000000000000 :: double" and ?b = "0x3FEFAE147AE147AE :: double"
  have e: "biased_exponent ?a = 1026" "biased_exponent ?b = 1022"
    by (simp_all add: biased_exponent_def)
  have f: "fraction ?a = 1125899906842624" "fraction ?b = 4413527634823086"
    by (simp_all add: fraction_def)
  have s: "\<not> sign_bit ?a" "\<not> sign_bit ?b"
    by (simp_all add: sign_bit_def)
  have bl: "bit_length ((2 ^ 52 + fraction ?a) * (2 ^ 52 + fraction ?b)) = 53 + 53"
    by (simp add: f bit_length_eqI [where k = 105])
  have "double_mult ?a ?b =
          of_nat ((if sign_bit ?a \<noteq> sign_bit ?b then 2 ^ 63 else 0)
                   + (53 + 1026 + 1022 - 1076) * 2 ^ 52 + 5573204538870989)"
    by (rule double_mult_normal [OF e(1) _ _ e(2) _ _ bl])
      (simp_all add: f round_nearest_even_def)
  then show ?thesis
    by (simp add: s double_10_0_def delta_r_state_decrease_factor_def double_9_9_def)
qed

lemma double_mult_10_by_tolerance:
  "double_mult double_10_0 time_tolerance_for_delta_r_in_danger = double_9_9"
  using double_mult_10_by_099
  by (simp add: time_tolerance_for_delta_r_in_danger_def delta_r_state_decrease_factor_def)

lemma double_mult_neg_02_by_101:
  "double_mult double_neg_0_2 non_oscillation_factor = double_neg_0_202"
proof -
  let ?a = "0xBFC999999999999A :: double" and ?b = "0x3FF028F5C28F5C29 :: double"
  have e: "biased_exponent ?a = 1020" "biased_exponent ?b = 1023"
    by (simp_all add: biased_exponent_def)
  have f: "fraction ?a = 2702159776422298" "fraction ?b = 45035996273705"
    by (simp_all add: fraction_def)
  have s: "sign_bit ?a" "\<not> sign_bit ?b"
    by (simp_all add: sign_bit_def)
  have bl: "bit_length ((2 ^ 52 + fraction ?a) * (2 ^ 52 + fraction ?b)) = 53 + 52"
    by (simp add: f bit_length_eqI [where k = 104])
  have "double_mult ?a ?b =
          of_nat ((if sign_bit ?a \<noteq> sign_bit ?b then 2 ^ 63 else 0)
                   + (52 + 1020 + 1023 - 1076) * 2 ^ 52 + 7277816997830722)"
    by (rule double_mult_normal [OF e(1) _ _ e(2) _ _ bl])
      (simp_all add: f round_nearest_even_def)
  then show ?thesis
    by (simp add: s double_neg_0_2_def non_oscillation_factor_def double_neg_0_202_def)
qed

subsection \<open>The fields of a double\<close>

lemma fraction_less: "fraction d < 2 ^ 52"
  by (simp add: fraction_def)

lemma biased_exponent_less: "biased_exponent d < 2048"
  by (simp add: biased_exponent_def)

lemma pow2_2098: "(2::nat) ^ 53 * 2 ^ 2045 = 2 ^ 2098" "(2::nat) ^ 52 * 2 ^ 2046 = 2 ^ 2098"
  by (simp_all only: flip: power_add, simp_all)

lemma magnitude_finite:
  assumes "is_finite d"
  shows "magnitude d < 2 ^ 2098"
proof (cases "biased_exponent d = 0")
  case True
  have "fraction d < 2 ^ 52" by (rule fraction_less)
  also have "(2::nat) ^ 52 \<le> 2 ^ 2098" by (rule power_increasing) simp_all
  finally show ?thesis using True by (simp add: magnitude_def)
next
  case False
  from assms biased_exponent_less [of d] have "biased_exponent d - 1 \<le> 2045"
    by (simp add: is_finite_def)
  then have "(2::nat) ^ (biased_exponent d - 1) \<le> 2 ^ 2045"
    by (rule power_increasing) simp
  moreover have "2 ^ 52 + fraction d < 2 ^ 53"
    using fraction_less [of d] by simp
  ultimately have "(2 ^ 52 + fraction d) * 2 ^ (biased_exponent d - 1) < 2 ^ 53 * 2 ^ 2045"
    by (intro mult_less_le_imp_less) simp_all
  with False show ?thesis
    by (simp only: magnitude_def if_False pow2_2098)
qed

lemma magnitude_infinite: "is_infinite d \<Longrightarrow> magnitude d = 2 ^ 2098"
  by (simp add: is_infinite_def magnitude_def pow2_2098 del: power_numeral)

lemma finite_or_infinite: "\<not> is_nan d \<Longrightarrow> is_finite d \<or> is_infinite d"
  by (auto simp add: is_nan_def is_finite_def is_infinite_def)

lemma magnitude_not_nan: "\<not> is_nan d \<Longrightarrow> magnitude d \<le> 2 ^ 2098"
  using magnitude_finite [of d] magnitude_infinite [of d] finite_or_infinite [of d]
  by (auto simp del: power_numeral)

lemma not_less_infinity: "\<not> double_less double_infinity d"
proof
  assume a: "double_less double_infinity d"
  then have nn: "\<not> is_nan d" by (simp add: double_less_def)
  have inf: "is_infinite double_infinity" "\<not> sign_bit double_infinity"
    by (simp_all add: is_infinite_def double_infinity_def biased_exponent_def fraction_def
        sign_bit_def)
  then have "scaled double_infinity = int (2 ^ 2098)"
    by (simp add: scaled_def magnitude_infinite del: power_numeral of_nat_power)
  moreover have "scaled d \<le> int (magnitude d)"
    by (simp add: scaled_def)
  moreover have "int (magnitude d) \<le> int (2 ^ 2098)"
    using magnitude_not_nan [OF nn] by (simp only: of_nat_le_iff)
  ultimately show False
    using a by (simp add: double_less_def del: power_numeral of_nat_power)
qed

subsection \<open>Encoding a magnitude and reading it back\<close>

lemma encode_parts:
  assumes "k < 2 ^ 2098"
  defines "e \<equiv> bit_length k - 53"
  shows "k div 2 ^ e < 2 ^ 53" and "e \<le> 2045" and "0 < e \<Longrightarrow> 2 ^ 52 \<le> k div 2 ^ e"
proof -
  have "bit_length k \<le> e + 53"
    by (simp add: e_def)
  then have "(2::nat) ^ bit_length k \<le> 2 ^ (e + 53)"
    by (rule power_increasing) simp
  with bit_length_upper [of k] have "k < 2 ^ 53 * 2 ^ e"
    by (simp add: power_add mult.commute)
  then show "k div 2 ^ e < 2 ^ 53"
    by (rule less_mult_imp_div_less)
  show "e \<le> 2045"
  proof (rule ccontr)
    assume "\<not> e \<le> 2045"
    then have big: "2098 \<le> bit_length k - 1" and pos: "0 < k"
      by (auto simp add: e_def bit_length_zero intro: ccontr)
    from big have "(2::nat) ^ 2098 \<le> 2 ^ (bit_length k - 1)"
      by (rule power_increasing) simp
    also have "\<dots> \<le> k"
      using pos by (rule bit_length_lower)
    finally show False
      using assms(1) by simp
  qed
  show "2 ^ 52 \<le> k div 2 ^ e" if "0 < e"
  proof -
    from that have bl: "bit_length k - 1 = 52 + e" and pos: "0 < k"
      by (auto simp add: e_def bit_length_zero intro: ccontr)
    have "(2::nat) ^ 52 * 2 ^ e = 2 ^ (bit_length k - 1)"
      by (simp only: bl power_add)
    with bit_length_lower [OF pos] have "2 ^ 52 * 2 ^ e \<le> k"
      by (simp only:)
    then show ?thesis
      by (simp add: less_eq_div_iff_mult_less_eq)
  qed
qed

lemma encode_magnitude_less:
  assumes "k < 2 ^ 2098"
  shows "encode_magnitude k < 2047 * 2 ^ 52"
proof -
  define e where "e = bit_length k - 53"
  define m where "m = k div 2 ^ e"
  have "m < 2 ^ 53" and "e \<le> 2045"
    using encode_parts [OF assms] by (simp_all add: e_def m_def)
  then have "e * 2 ^ 52 + m < 2047 * 2 ^ 52"
    by simp
  moreover have "encode_magnitude k = e * 2 ^ 52 + m"
    using assms by (simp only: encode_magnitude_def Let_def e_def m_def not_le [symmetric] if_False)
  ultimately show ?thesis
    by (simp only:)
qed

lemma unat_make_double:
  assumes "k < 2 ^ 2098"
  shows "unat (make_double negative k) = (if negative then 2 ^ 63 else 0) + encode_magnitude k"
proof -
  have "(if negative then 2 ^ 63 else 0) + encode_magnitude k < 2 ^ 64"
    using encode_magnitude_less [OF assms] by simp
  then show ?thesis
    by (simp only: make_double_def unat_of_nat len_bit0 len_num1 mult_1_right, simp)
qed

lemma make_double_fields:
  assumes "k < 2 ^ 2098"
  defines "e \<equiv> bit_length k - 53"
  defines "m \<equiv> k div 2 ^ e"
  shows "sign_bit (make_double negative k) = negative"
    and "biased_exponent (make_double negative k) = e + m div 2 ^ 52"
    and "fraction (make_double negative k) = m mod 2 ^ 52"
proof -
  define c :: nat where "c = (if negative then 1 else 0)"
  have m: "m < 2 * 2 ^ 52" and e: "e \<le> 2045"
    using encode_parts [OF assms(1)] by (simp_all add: e_def m_def)
  have enc: "encode_magnitude k = e * 2 ^ 52 + m"
    using assms(1)
    by (simp only: encode_magnitude_def Let_def e_def m_def not_le [symmetric] if_False)
  have "unat (make_double negative k) = (if negative then 2 ^ 63 else 0) + (e * 2 ^ 52 + m)"
    by (simp only: unat_make_double [OF assms(1)] enc)
  also have "\<dots> = m + (c * 2048 + e) * 2 ^ 52"
    by (simp add: c_def)
  finally have u: "unat (make_double negative k) = m + (c * 2048 + e) * 2 ^ 52" .
  have small: "m div 2 ^ 52 < 2"
    using m by (intro less_mult_imp_div_less) simp
  have "unat (make_double negative k) div 2 ^ 52 = (m div 2 ^ 52 + e) + c * 2048"
    by (simp only: u div_mult_self1 [of "2 ^ 52" m] power_not_zero zero_neq_numeral
        not_False_eq_True)
  then have "biased_exponent (make_double negative k) = (m div 2 ^ 52 + e) mod 2048"
    by (simp only: biased_exponent_def mod_mult_self1) simp
  also have "\<dots> = m div 2 ^ 52 + e"
    using small e by (intro mod_less) simp
  finally show "biased_exponent (make_double negative k) = e + m div 2 ^ 52"
    by (simp only: add.commute)
  show "fraction (make_double negative k) = m mod 2 ^ 52"
    by (simp only: fraction_def u mod_mult_self1)
  have "m + e * 2 ^ 52 < 2 ^ 63"
    using m e by simp
  then show "sign_bit (make_double negative k) = negative"
    by (simp add: sign_bit_def u c_def)
qed

lemma magnitude_make_double:
  assumes rep: "representable k" and less: "k < 2 ^ 2098"
  shows "magnitude (make_double negative k) = k"
proof -
  define e where "e = bit_length k - 53"
  define m where "m = k div 2 ^ e"
  note f = make_double_fields [OF less, of negative, folded e_def m_def]
  have m: "m < 2 * 2 ^ 52"
    using encode_parts(1) [OF less] by (simp add: e_def m_def)
  from rep have "2 ^ e dvd k"
    by (simp add: representable_def e_def mod_eq_0_iff_dvd)
  then have k: "k = m * 2 ^ e"
    by (simp add: m_def)
  show ?thesis
  proof (cases "m < 2 ^ 52")
    case True
    with encode_parts(3) [OF less] have "e = 0"
      by (cases "e = 0") (simp_all add: e_def m_def)
    with True have "biased_exponent (make_double negative k) = 0"
      and "fraction (make_double negative k) = m"
      by (simp_all add: f)
    moreover from k \<open>e = 0\<close> have "m = k"
      by simp
    ultimately show ?thesis
      by (simp only: magnitude_def refl if_True)
  next
    case False
    with m have d: "m div 2 ^ 52 = 1"
      by (intro div_nat_eqI) simp_all
    have r: "2 ^ 52 + m mod 2 ^ 52 = m"
      using div_mult_mod_eq [of m "2 ^ 52"] by (simp only: d mult_1)
    have "magnitude (make_double negative k) = m * 2 ^ e"
      by (simp only: magnitude_def f d r) simp
    with k show ?thesis
      by (simp only:)
  qed
qed

lemma make_double_finite:
  assumes "k < 2 ^ 2098"
  shows "is_finite (make_double negative k)" and "\<not> is_nan (make_double negative k)"
proof -
  define e where "e = bit_length k - 53"
  define m where "m = k div 2 ^ e"
  have "m < 2 * 2 ^ 52" and "e \<le> 2045"
    using encode_parts [OF assms] by (simp_all add: e_def m_def)
  moreover from this have "m div 2 ^ 52 < 2"
    by (intro less_mult_imp_div_less) simp
  ultimately have "biased_exponent (make_double negative k) \<noteq> 2047"
    by (simp add: make_double_fields(2) [OF assms, folded e_def m_def])
  then show "is_finite (make_double negative k)" and "\<not> is_nan (make_double negative k)"
    by (simp_all add: is_finite_def is_nan_def)
qed

subsection \<open>Rounding to nearest\<close>

lemma round_nearest_even_bounds:
  "2 * (round_nearest_even n s * 2 ^ s) \<le> 2 * n + 2 ^ s"
  "2 * n \<le> 2 * (round_nearest_even n s * 2 ^ s) + 2 ^ s"
proof -
  define P :: nat where "P = 2 ^ s"
  define q where "q = n div P"
  define r where "r = n mod P"
  have n: "n = q * P + r"
    by (simp add: q_def r_def)
  have "0 < P"
    by (simp add: P_def)
  then have r: "r < P"
    by (simp add: r_def)
  have up: "(q + 1) * P = q * P + P"
    by (simp add: algebra_simps)
  show "2 * (round_nearest_even n s * 2 ^ s) \<le> 2 * n + 2 ^ s"
    using r by (auto simp add: round_nearest_even_def Let_def up n
        simp flip: P_def q_def r_def)
  show "2 * n \<le> 2 * (round_nearest_even n s * 2 ^ s) + 2 ^ s"
    using r by (auto simp add: round_nearest_even_def Let_def up n
        simp flip: P_def q_def r_def)
qed

lemma round_nearest_even_le:
  assumes "n < 2 ^ (s + 53)"
  shows "round_nearest_even n s \<le> 2 ^ 53"
proof -
  from assms have "n < 2 ^ 53 * 2 ^ s"
    by (simp add: power_add mult.commute)
  then have "n div 2 ^ s < 2 ^ 53"
    by (rule less_mult_imp_div_less)
  then show ?thesis
    by (simp add: round_nearest_even_def Let_def)
qed

lemma representable_scaled:
  assumes "q \<le> 2 ^ 53"
  shows "representable (q * 2 ^ t)"
proof (cases "q = 0")
  case True
  then show ?thesis by (simp add: representable_def)
next
  case False
  then have bl: "bit_length (q * 2 ^ t) = bit_length q + t"
    by (simp add: bit_length_mult_pow2)
  show ?thesis
  proof (cases "q = 2 ^ 53")
    case True
    have "bit_length q = Suc 53"
      unfolding True by (rule bit_length_eqI) simp_all
    then have "bit_length (q * 2 ^ t) - 53 = Suc t"
      by (simp add: bl)
    moreover have "q * 2 ^ t = 2 ^ 52 * 2 ^ Suc t"
      by (simp add: True)
    ultimately show ?thesis
      by (simp only: representable_def mod_mult_self2_is_0)
  next
    case False
    with assms have "q < 2 ^ 53" by simp
    have "bit_length q \<le> 53"
    proof (rule ccontr)
      assume "\<not> bit_length q \<le> 53"
      then have "53 \<le> bit_length q - 1" by simp
      then have "(2::nat) ^ 53 \<le> 2 ^ (bit_length q - 1)"
        by (rule power_increasing) simp
      also have "\<dots> \<le> q"
        using \<open>q \<noteq> 0\<close> by (intro bit_length_lower) simp
      finally show False
        using \<open>q < 2 ^ 53\<close> by simp
    qed
    then have "bit_length (q * 2 ^ t) - 53 \<le> t"
      by (simp add: bl)
    then have "(2::nat) ^ (bit_length (q * 2 ^ t) - 53) dvd 2 ^ t"
      by (rule le_imp_power_dvd)
    then have "2 ^ (bit_length (q * 2 ^ t) - 53) dvd q * 2 ^ t"
      by (rule dvd_mult)
    then show ?thesis
      by (simp only: representable_def mod_eq_0_iff_dvd)
  qed
qed

lemma round_magnitude_representable: "representable (round_magnitude n)"
proof -
  define s where "s = max 1074 (bit_length n - 53)"
  have "bit_length n \<le> s + 53"
    by (simp add: s_def)
  then have "(2::nat) ^ bit_length n \<le> 2 ^ (s + 53)"
    by (rule power_increasing) simp
  with bit_length_upper [of n] have "n < 2 ^ (s + 53)"
    by (rule less_le_trans)
  then have "round_nearest_even n s \<le> 2 ^ 53"
    by (rule round_nearest_even_le)
  then have "representable (round_nearest_even n s * 2 ^ (s - 1074))"
    by (rule representable_scaled)
  then show ?thesis
    by (simp only: round_magnitude_def Let_def s_def)
qed

subsection \<open>Multiplying by \<open>0.99\<close>\<close>

lemma magnitude_099:
  "magnitude delta_r_state_decrease_factor = 8917127262193582 * 2 ^ 1021"
  "magnitude time_tolerance_for_delta_r_in_danger = 8917127262193582 * 2 ^ 1021"
  by (simp_all add: delta_r_state_decrease_factor_def time_tolerance_for_delta_r_in_danger_def
      magnitude_def biased_exponent_def fraction_def)

lemma round_by_099:
  fixes k :: nat
  assumes pos: "0 < k"
  defines "r \<equiv> round_magnitude (k * (8917127262193582 * 2 ^ 1021))"
  shows "0 < r" and "r \<le> k" and "50 \<le> k \<Longrightarrow> r < k"
proof -
  define Q :: nat where "Q = 2 ^ 1021"
  define n where "n = k * (8917127262193582 * Q)"
  define s where "s = max 1074 (bit_length n - 53)"
  define X :: nat where "X = 2 ^ s"
  define A where "A = round_nearest_even n s * X"
  have Q: "0 < Q"
    by (simp add: Q_def)
  have n: "n = (k * 8917127262193582) * Q"
    by (simp add: n_def)
  have npos: "0 < n"
    using pos Q by (simp add: n_def)
  have r: "r = round_nearest_even n s * 2 ^ (s - 1074)"
    by (simp only: r_def round_magnitude_def Let_def s_def n_def Q_def)
  have s: "1074 \<le> s"
    by (simp add: s_def)
  have p1074: "(2::nat) ^ 1074 = 2 ^ 53 * Q"
    by (simp only: Q_def flip: power_add) simp
  have "r * 2 ^ 1074 = round_nearest_even n s * (2 ^ (s - 1074) * 2 ^ 1074)"
    by (simp only: r mult.assoc)
  also have "(2::nat) ^ (s - 1074) * 2 ^ 1074 = X"
    using s by (simp only: X_def pow2_split [of 1074 s])
  finally have A: "A = (r * 2 ^ 53) * Q"
    by (simp only: A_def p1074 mult.assoc)
  have up: "2 * A \<le> 2 * n + X" and low: "2 * n \<le> 2 * A + X"
    using round_nearest_even_bounds [of n s] by (simp_all only: A_def X_def)
  have "0 < r \<and> r \<le> k \<and> (50 \<le> k \<longrightarrow> r < k)"
  proof (cases "s = 1074")
    case True
    then have X: "X = 2 ^ 53 * Q"
      by (simp only: X_def p1074)
    from up have "(2 * r * 2 ^ 53) * Q \<le> (2 * k * 8917127262193582 + 2 ^ 53) * Q"
      by (simp only: A n X) (simp add: algebra_simps)
    with Q have u: "2 * r * 2 ^ 53 \<le> 2 * k * 8917127262193582 + 2 ^ 53"
      by (simp only: mult_le_cancel2)
    from low have "(2 * k * 8917127262193582) * Q \<le> (2 * r * 2 ^ 53 + 2 ^ 53) * Q"
      by (simp only: A n X) (simp add: algebra_simps)
    with Q have l: "2 * k * 8917127262193582 \<le> 2 * r * 2 ^ 53 + 2 ^ 53"
      by (simp only: mult_le_cancel2)
    from u l pos show ?thesis
      by simp
  next
    case False
    with s have "bit_length n - 1 = s + 52"
      by (simp add: s_def max_def split: if_splits)
    with bit_length_lower [OF npos] have "2 ^ (s + 52) \<le> n"
      by (simp only:)
    then have big: "X * 2 ^ 52 \<le> n"
      by (simp only: X_def power_add)
    from up big have "2 ^ 53 * A \<le> (2 ^ 53 + 1) * n"
      by simp
    then have "(2 ^ 53 * r * 2 ^ 53) * Q \<le> ((2 ^ 53 + 1) * k * 8917127262193582) * Q"
      by (simp only: A n mult.assoc)
    with Q have u: "2 ^ 53 * r * 2 ^ 53 \<le> (2 ^ 53 + 1) * k * 8917127262193582"
      by (simp only: mult_le_cancel2)
    from low big have "n \<le> 2 * A"
      by simp
    with npos have "0 < A"
      by simp
    then have l: "0 < r"
      by (simp add: A)
    from u l pos show ?thesis
      by simp
  qed
  then show "0 < r" and "r \<le> k" and "50 \<le> k \<Longrightarrow> r < k"
    by simp_all
qed

lemma tolerance_is_decrease_factor:
  "time_tolerance_for_delta_r_in_danger = delta_r_state_decrease_factor"
  by (simp add: time_tolerance_for_delta_r_in_danger_def delta_r_state_decrease_factor_def)

lemma decrease_factor_fields:
  "\<not> is_nan delta_r_state_decrease_factor"
  "\<not> is_infinite delta_r_state_decrease_factor"
  "\<not> sign_bit delta_r_state_decrease_factor"
  by (simp_all add: delta_r_state_decrease_factor_def is_nan_def is_infinite_def sign_bit_def
      biased_exponent_def)

lemma double_zero_fields:
  "\<not> is_nan double_zero" "scaled double_zero = 0"
  by (simp_all add: double_zero_def is_nan_def biased_exponent_def scaled_def magnitude_def
      fraction_def sign_bit_def)

lemma positive_iff:
  "double_less double_zero d \<longleftrightarrow> \<not> is_nan d \<and> \<not> sign_bit d \<and> 0 < magnitude d"
  by (auto simp add: double_less_def double_zero_fields scaled_def [of d])

lemma finite_not_infinite: "is_finite d \<Longrightarrow> \<not> is_infinite d"
  by (simp add: is_finite_def is_infinite_def)

lemma double_mult_099_finite:
  assumes pos: "double_less double_zero d" and fin: "is_finite d"
  defines "r \<equiv> round_magnitude (magnitude d * (8917127262193582 * 2 ^ 1021))"
  shows "double_mult d delta_r_state_decrease_factor = make_double False r"
    and "\<not> sign_bit (double_mult d delta_r_state_decrease_factor)"
    and "is_finite (double_mult d delta_r_state_decrease_factor)"
    and "magnitude (double_mult d delta_r_state_decrease_factor) = r"
proof -
  from pos have d: "\<not> is_nan d" "\<not> sign_bit d" "0 < magnitude d"
    by (simp_all add: positive_iff)
  show eq: "double_mult d delta_r_state_decrease_factor = make_double False r"
    using d finite_not_infinite [OF fin]
    by (simp add: double_mult_def decrease_factor_fields magnitude_099 r_def
        del: power_numeral)
  have "r \<le> magnitude d"
    unfolding r_def using d(3) by (rule round_by_099)
  also have "magnitude d < 2 ^ 2098"
    using fin by (rule magnitude_finite)
  finally have less: "r < 2 ^ 2098" .
  have rep: "representable r"
    unfolding r_def by (rule round_magnitude_representable)
  show "\<not> sign_bit (double_mult d delta_r_state_decrease_factor)"
    by (simp only: eq make_double_fields(1) [OF less] not_False_eq_True)
  show "is_finite (double_mult d delta_r_state_decrease_factor)"
    by (simp only: eq make_double_finite(1) [OF less])
  show "magnitude (double_mult d delta_r_state_decrease_factor) = r"
    by (simp only: eq magnitude_make_double [OF rep less])
qed

lemma double_mult_099_infinite:
  assumes pos: "double_less double_zero d" and inf: "is_infinite d"
  shows "double_mult d delta_r_state_decrease_factor = double_infinity"
proof -
  from pos have d: "\<not> is_nan d" "\<not> sign_bit d"
    by (simp_all add: positive_iff)
  have "double_mult d delta_r_state_decrease_factor = make_double False (2 ^ 2098)"
    using d inf
    by (simp add: double_mult_def decrease_factor_fields magnitude_099 del: power_numeral)
  also have "encode_magnitude (2 ^ 2098) = 2047 * 2 ^ 52"
    by (simp only: encode_magnitude_def le_refl if_True)
  then have "make_double False (2 ^ 2098) = double_infinity"
    by (simp only: make_double_def if_False double_infinity_def) simp
  finally show ?thesis .
qed

lemma infinite_positive_is_infinity:
  assumes "is_infinite d" and "\<not> sign_bit d"
  shows "scaled d = scaled double_infinity" and "\<not> is_nan double_infinity"
proof -
  have "is_infinite double_infinity" and "\<not> sign_bit double_infinity"
    by (simp_all add: is_infinite_def double_infinity_def biased_exponent_def fraction_def
        sign_bit_def)
  with assms show "scaled d = scaled double_infinity"
    by (simp only: scaled_def magnitude_infinite if_False)
  show "\<not> is_nan double_infinity"
    by (simp add: is_nan_def double_infinity_def biased_exponent_def fraction_def)
qed

text \<open>
  A positive finite double times \<open>0.99\<close> is positive and finite; a positive double times
  \<open>0.99\<close> is never above it, and it is below it from \<open>50 * 2 ^ -1074\<close> on.
\<close>

lemma double_mult_099_positive_finite:
  assumes "positive_finite d"
  shows "positive_finite (double_mult d delta_r_state_decrease_factor)"
proof -
  from assms have pos: "double_less double_zero d" and fin: "is_finite d"
    by (simp_all add: positive_finite_def)
  note m = double_mult_099_finite [OF pos fin]
  from pos have "0 < magnitude d"
    by (simp add: positive_iff)
  then have "0 < round_magnitude (magnitude d * (8917127262193582 * 2 ^ 1021))"
    by (rule round_by_099)
  then have "0 < magnitude (double_mult d delta_r_state_decrease_factor)"
    by (simp only: m(4))
  moreover have "\<not> is_nan (double_mult d delta_r_state_decrease_factor)"
    using m(3) by (simp add: is_finite_def is_nan_def)
  ultimately show ?thesis
    using m(2,3) by (simp add: positive_finite_def positive_iff)
qed

lemma double_mult_099_le:
  assumes pos: "double_less double_zero d"
  shows "double_le (double_mult d delta_r_state_decrease_factor) d"
proof (cases "is_finite d")
  case True
  note m = double_mult_099_finite [OF pos True]
  from pos have d: "\<not> is_nan d" "\<not> sign_bit d" "0 < magnitude d"
    by (simp_all add: positive_iff)
  have "round_magnitude (magnitude d * (8917127262193582 * 2 ^ 1021)) \<le> magnitude d"
    using d(3) by (rule round_by_099)
  then have "magnitude (double_mult d delta_r_state_decrease_factor) \<le> magnitude d"
    by (simp only: m(4))
  moreover have "\<not> is_nan (double_mult d delta_r_state_decrease_factor)"
    using m(3) by (simp add: is_finite_def is_nan_def)
  ultimately show ?thesis
    using d m(2) by (simp add: double_le_def scaled_def)
next
  case False
  from pos have d: "\<not> is_nan d" "\<not> sign_bit d"
    by (simp_all add: positive_iff)
  with False have inf: "is_infinite d"
    using finite_or_infinite [of d] by simp
  show ?thesis
    using d infinite_positive_is_infinity [OF inf d(2)]
    by (simp add: double_mult_099_infinite [OF pos inf] double_le_def)
qed

lemma double_mult_099_less:
  assumes pf: "positive_finite d" and big: "double_le fifty_denorm_min d"
  shows "double_less (double_mult d delta_r_state_decrease_factor) d"
proof -
  from pf have pos: "double_less double_zero d" and fin: "is_finite d"
    by (simp_all add: positive_finite_def)
  note m = double_mult_099_finite [OF pos fin]
  from pos have d: "\<not> is_nan d" "\<not> sign_bit d" "0 < magnitude d"
    by (simp_all add: positive_iff)
  have "scaled fifty_denorm_min = 50"
    by (simp add: fifty_denorm_min_def scaled_def sign_bit_def magnitude_def
        biased_exponent_def fraction_def)
  with big d have "50 \<le> magnitude d"
    by (simp add: double_le_def scaled_def)
  with d(3) have "round_magnitude (magnitude d * (8917127262193582 * 2 ^ 1021)) < magnitude d"
    by (rule round_by_099)
  then have "magnitude (double_mult d delta_r_state_decrease_factor) < magnitude d"
    by (simp only: m(4))
  moreover have "\<not> is_nan (double_mult d delta_r_state_decrease_factor)"
    using m(3) by (simp add: is_finite_def is_nan_def)
  ultimately show ?thesis
    using d m(2) by (simp add: double_less_def scaled_def)
qed

text \<open>
  At the ends of the range the product is not below the operand: \<open>2 ^ -1074 * 0.99\<close>
  rounds back to \<open>2 ^ -1074\<close>, and \<open>infinity * 0.99\<close> is infinity.
\<close>

lemma double_mult_denorm_min_by_099:
  "double_mult denorm_min delta_r_state_decrease_factor = denorm_min"
proof -
  have pos: "double_less double_zero denorm_min" and fin: "is_finite denorm_min"
    and mag: "magnitude denorm_min = 1"
    by (simp_all add: denorm_min_def double_eval is_finite_def)
  have "0 < round_magnitude (magnitude denorm_min * (8917127262193582 * 2 ^ 1021))"
    and "round_magnitude (magnitude denorm_min * (8917127262193582 * 2 ^ 1021))
      \<le> magnitude denorm_min"
    by (rule round_by_099, simp add: mag)+
  then have "round_magnitude (magnitude denorm_min * (8917127262193582 * 2 ^ 1021)) = 1"
    unfolding mag by arith
  then have "double_mult denorm_min delta_r_state_decrease_factor = make_double False 1"
    by (simp only: double_mult_099_finite(1) [OF pos fin])
  also have "make_double False 1 = denorm_min"
    by (simp add: make_double_def encode_magnitude_def bit_length.simps denorm_min_def)
  finally show ?thesis .
qed

lemma double_mult_infinity_by_099:
  "double_mult double_infinity delta_r_state_decrease_factor = double_infinity"
proof -
  have "double_less double_zero double_infinity" and "is_infinite double_infinity"
    by (simp_all add: double_eval is_infinite_def)
  then show ?thesis
    by (rule double_mult_099_infinite)
qed

section \<open>The two danger flags\<close>

text \<open>
  C2: \<open>delta_radius_is_in_danger\<close> holds exactly when
  \<open>horizon_will_hit_excision_boundary_first\<close> is true and \<open>t_delta_radius\<close>, read as
  positive infinity when it is absent, is strictly less than \<open>damping_time * 0.99\<close>;
  \<open>char_speed_is_in_danger\<close> holds exactly when \<open>char_speed_will_hit_zero_first\<close> is
  true, \<open>t_char_speed\<close>, read as positive infinity when it is absent, is strictly less
  than \<open>damping_time\<close>, and \<open>delta_radius_is_in_danger\<close> is false.
\<close>

theorem danger_flags_characterised:
  "delta_radius_is_in_danger info crossing_time_info =
     (horizon_will_hit_excision_boundary_first crossing_time_info \<and>
      double_less
        (case t_delta_radius crossing_time_info of None \<Rightarrow> double_infinity | Some t \<Rightarrow> t)
        (double_mult (damping_time info) time_tolerance_for_delta_r_in_danger)) \<and>
   char_speed_is_in_danger info crossing_time_info =
     (char_speed_will_hit_zero_first crossing_time_info \<and>
      double_less
        (case t_char_speed crossing_time_info of None \<Rightarrow> double_infinity | Some t \<Rightarrow> t)
        (damping_time info) \<and>
      \<not> delta_radius_is_in_danger info crossing_time_info)"
  by (simp add: delta_radius_is_in_danger_def char_speed_is_in_danger_def value_or_def)

text \<open>A predicted time that is absent puts nothing in danger.\<close>

lemma absent_time_is_safe:
  "t_delta_radius crossing_time_info = None \<Longrightarrow>
     \<not> delta_radius_is_in_danger info crossing_time_info"
  "t_char_speed crossing_time_info = None \<Longrightarrow>
     \<not> char_speed_is_in_danger info crossing_time_info"
  by (simp_all add: delta_radius_is_in_danger_def char_speed_is_in_danger_def value_or_def
      not_less_infinity)

text \<open>
  C3: in one evaluation of \<open>DeltaR::update\<close>, \<open>delta_radius_is_in_danger\<close> and
  \<open>char_speed_is_in_danger\<close> are never both true.
\<close>

theorem danger_flags_exclusive:
  "\<not> (delta_radius_is_in_danger info crossing_time_info \<and>
      char_speed_is_in_danger info crossing_time_info)"
  by (simp add: char_speed_is_in_danger_def)

section \<open>The branches of \<open>DeltaR::update\<close>\<close>

text \<open>
  C1: when \<open>char_speed_is_in_danger\<close> is true and either \<open>t_comoving_char_speed\<close> is
  present or \<open>min_comoving_char_speed\<close> is negative, \<open>DeltaR::update\<close> makes AhSpeed the
  state, sets \<open>target_char_speed\<close> to \<open>min_char_speed * 1.01\<close>, sets
  \<open>discontinuous_change_has_occurred\<close> and sets \<open>suggested_time_scale\<close> to
  \<open>t_char_speed\<close>.
\<close>

theorem DeltaR_update_switches_to_AhSpeed:
  assumes "char_speed_is_in_danger info crossing_time_info"
    and "has_value (t_comoving_char_speed crossing_time_info) \<or>
         double_less (min_comoving_char_speed update_args) double_zero"
  shows "state (fst (DeltaR_update info update_args crossing_time_info)) = AhSpeed \<and>
         target_char_speed (fst (DeltaR_update info update_args crossing_time_info)) =
           Some (double_mult (min_char_speed update_args) non_oscillation_factor) \<and>
         discontinuous_change_has_occurred
           (fst (DeltaR_update info update_args crossing_time_info)) \<and>
         suggested_time_scale (fst (DeltaR_update info update_args crossing_time_info)) =
           t_char_speed crossing_time_info"
  using assms by (simp add: DeltaR_update_def Let_def)

theorem DeltaR_update_switches_to_AhSpeed_scenario:
  "char_speed_is_in_danger scenario_info char_speed_crossing \<and>
   double_less (min_comoving_char_speed negative_speed_args) double_zero \<and>
   fst (DeltaR_update scenario_info negative_speed_args char_speed_crossing) =
     \<lparr>state = AhSpeed, damping_time = double_10_0, suggested_time_scale = Some double_3_0,
      discontinuous_change_has_occurred = True,
      target_char_speed = Some double_neg_0_202\<rparr>"
proof -
  have danger: "char_speed_is_in_danger scenario_info char_speed_crossing"
    by (simp add: char_speed_is_in_danger_def delta_radius_is_in_danger_def value_or_def
        scenario_defs scenario_doubles double_eval)
  have negative: "double_less (min_comoving_char_speed negative_speed_args) double_zero"
    by (simp add: scenario_defs scenario_doubles double_eval)
  have "damping_time (fst (DeltaR_update scenario_info negative_speed_args
      char_speed_crossing)) = double_10_0"
    using danger negative by (simp add: DeltaR_update_def Let_def scenario_info_def)
  moreover note DeltaR_update_switches_to_AhSpeed
    [OF danger disjI2 [OF negative]]
  ultimately have "fst (DeltaR_update scenario_info negative_speed_args char_speed_crossing) =
     \<lparr>state = AhSpeed, damping_time = double_10_0, suggested_time_scale = Some double_3_0,
      discontinuous_change_has_occurred = True,
      target_char_speed = Some double_neg_0_202\<rparr>"
    by (cases "fst (DeltaR_update scenario_info negative_speed_args char_speed_crossing)")
      (simp add: negative_speed_args_def char_speed_crossing_def double_mult_neg_02_by_101)
  with danger negative show ?thesis by simp
qed

text \<open>
  C7: when \<open>char_speed_is_in_danger\<close> is true, \<open>t_comoving_char_speed\<close> is absent and
  \<open>min_comoving_char_speed >= 0\<close>, the state stays DeltaR, the flag
  \<open>discontinuous_change_has_occurred\<close> and \<open>target_char_speed\<close> are left as they were,
  and \<open>suggested_time_scale\<close> is set to \<open>t_char_speed\<close>.
\<close>

theorem DeltaR_update_char_speed_stays:
  assumes "char_speed_is_in_danger info crossing_time_info"
    and "\<not> has_value (t_comoving_char_speed crossing_time_info)"
    and "double_le double_zero (min_comoving_char_speed update_args)"
    and "state info = DeltaR"
  shows "state (fst (DeltaR_update info update_args crossing_time_info)) = DeltaR \<and>
         discontinuous_change_has_occurred
           (fst (DeltaR_update info update_args crossing_time_info)) =
           discontinuous_change_has_occurred info \<and>
         target_char_speed (fst (DeltaR_update info update_args crossing_time_info)) =
           target_char_speed info \<and>
         suggested_time_scale (fst (DeltaR_update info update_args crossing_time_info)) =
           t_char_speed crossing_time_info"
  using assms double_le_not_less [of double_zero "min_comoving_char_speed update_args"]
  by (simp add: DeltaR_update_def Let_def)

theorem DeltaR_update_char_speed_stays_scenario:
  "char_speed_is_in_danger scenario_info char_speed_crossing \<and>
   \<not> has_value (t_comoving_char_speed char_speed_crossing) \<and>
   double_le double_zero (min_comoving_char_speed large_error_args) \<and>
   state scenario_info = DeltaR \<and>
   state (fst (DeltaR_update scenario_info large_error_args char_speed_crossing)) = DeltaR \<and>
   \<not> discontinuous_change_has_occurred
       (fst (DeltaR_update scenario_info large_error_args char_speed_crossing)) \<and>
   target_char_speed (fst (DeltaR_update scenario_info large_error_args char_speed_crossing)) =
     None \<and>
   suggested_time_scale
       (fst (DeltaR_update scenario_info large_error_args char_speed_crossing)) =
     Some double_3_0"
proof -
  have danger: "char_speed_is_in_danger scenario_info char_speed_crossing"
    by (simp add: char_speed_is_in_danger_def delta_radius_is_in_danger_def value_or_def
        scenario_defs scenario_doubles double_eval)
  have absent: "\<not> has_value (t_comoving_char_speed char_speed_crossing)"
    by (simp add: has_value_def char_speed_crossing_def)
  have positive: "double_le double_zero (min_comoving_char_speed large_error_args)"
    by (simp add: scenario_defs scenario_doubles double_eval)
  have st: "state scenario_info = DeltaR"
    by (simp add: scenario_info_def)
  from DeltaR_update_char_speed_stays [OF danger absent positive st] danger absent positive st
  show ?thesis
    by (simp add: scenario_info_def char_speed_crossing_def)
qed

text \<open>
  C6: when \<open>delta_radius_is_in_danger\<close> is true and \<open>char_speed_is_in_danger\<close> is
  false, the state stays DeltaR and \<open>suggested_time_scale\<close> is set to \<open>t_delta_radius\<close>
  (\<open>5.0\<close> when \<open>t_delta_radius = 5.0\<close> and \<open>damping_time = 10.0\<close>).
\<close>

theorem DeltaR_update_delta_radius_in_danger:
  assumes "delta_radius_is_in_danger info crossing_time_info"
    and "\<not> char_speed_is_in_danger info crossing_time_info"
    and "state info = DeltaR"
  shows "state (fst (DeltaR_update info update_args crossing_time_info)) = DeltaR \<and>
         suggested_time_scale (fst (DeltaR_update info update_args crossing_time_info)) =
           t_delta_radius crossing_time_info"
  using assms by (simp add: DeltaR_update_def Let_def)

theorem DeltaR_update_delta_radius_in_danger_scenario:
  "delta_radius_is_in_danger scenario_info horizon_crossing \<and>
   \<not> char_speed_is_in_danger scenario_info horizon_crossing \<and>
   state scenario_info = DeltaR \<and>
   state (fst (DeltaR_update scenario_info large_error_args horizon_crossing)) = DeltaR \<and>
   suggested_time_scale (fst (DeltaR_update scenario_info large_error_args horizon_crossing)) =
     Some double_5_0"
proof -
  have "double_less double_5_0 double_9_9"
    by (simp add: scenario_doubles double_eval)
  then have danger: "delta_radius_is_in_danger scenario_info horizon_crossing"
    by (simp add: delta_radius_is_in_danger_def value_or_def scenario_info_def
        horizon_crossing_def double_mult_10_by_tolerance)
  then have other: "\<not> char_speed_is_in_danger scenario_info horizon_crossing"
    by (simp add: char_speed_is_in_danger_def)
  have st: "state scenario_info = DeltaR"
    by (simp add: scenario_info_def)
  from DeltaR_update_delta_radius_in_danger
    [OF danger other st, where update_args = large_error_args]
    danger other st
  show ?thesis
    by (simp add: horizon_crossing_def)
qed

text \<open>
  C4: when neither danger flag is true and \<open>min_comoving_char_speed\<close> is non-positive
  or \<open>|control_error_delta_r|\<close> is at most the threshold \<open>1e-3\<close>, the state stays
  DeltaR and \<open>suggested_time_scale\<close>, \<open>discontinuous_change_has_occurred\<close> and
  \<open>target_char_speed\<close> are not changed: the \<open>Info\<close> is left as it was.
\<close>

theorem DeltaR_update_no_change:
  assumes "\<not> delta_radius_is_in_danger info crossing_time_info"
    and "\<not> char_speed_is_in_danger info crossing_time_info"
    and "double_le (min_comoving_char_speed update_args) double_zero \<or>
         double_le (double_abs (StateUpdateArgs.control_error_delta_r update_args))
           delta_r_control_error_threshold"
    and "state info = DeltaR"
  shows "state (fst (DeltaR_update info update_args crossing_time_info)) = DeltaR \<and>
         suggested_time_scale (fst (DeltaR_update info update_args crossing_time_info)) =
           suggested_time_scale info \<and>
         discontinuous_change_has_occurred
           (fst (DeltaR_update info update_args crossing_time_info)) =
           discontinuous_change_has_occurred info \<and>
         target_char_speed (fst (DeltaR_update info update_args crossing_time_info)) =
           target_char_speed info \<and>
         fst (DeltaR_update info update_args crossing_time_info) = info"
proof -
  from assms(3) have "(double_less double_zero (min_comoving_char_speed update_args) \<and>
      double_less delta_r_control_error_threshold
        (double_abs (StateUpdateArgs.control_error_delta_r update_args))) = False"
    by (auto dest: double_le_not_less)
  with assms(1,2,4) show ?thesis
    by (simp only: DeltaR_update_def if_False fst_conv simp_thms)
qed

theorem DeltaR_update_no_change_at_threshold:
  "\<not> delta_radius_is_in_danger scenario_info no_crossing \<and>
   \<not> char_speed_is_in_danger scenario_info no_crossing \<and>
   double_le (double_abs (StateUpdateArgs.control_error_delta_r threshold_error_args))
     delta_r_control_error_threshold \<and>
   state scenario_info = DeltaR \<and>
   state (fst (DeltaR_update scenario_info threshold_error_args no_crossing)) = DeltaR \<and>
   suggested_time_scale (fst (DeltaR_update scenario_info threshold_error_args no_crossing)) =
     Some double_0_5 \<and>
   fst (DeltaR_update scenario_info threshold_error_args no_crossing) = scenario_info"
proof -
  have d1: "\<not> delta_radius_is_in_danger scenario_info no_crossing"
    by (simp add: delta_radius_is_in_danger_def no_crossing_def)
  have d2: "\<not> char_speed_is_in_danger scenario_info no_crossing"
    by (simp add: char_speed_is_in_danger_def no_crossing_def)
  have within: "double_le
      (double_abs (StateUpdateArgs.control_error_delta_r threshold_error_args))
      delta_r_control_error_threshold"
    by (simp add: threshold_error_args_def double_abs_def double_eval)
  have st: "state scenario_info = DeltaR"
    by (simp add: scenario_info_def)
  from DeltaR_update_no_change [OF d1 d2 disjI2 [OF within] st] d1 d2 within st
  show ?thesis
    by (simp add: scenario_info_def)
qed

text \<open>
  C5: when neither danger flag is true, the branch that shrinks the time scale is taken
  if and only if \<open>min_comoving_char_speed > 0\<close> and \<open>|control_error_delta_r| > 1e-3\<close>;
  it is not taken when \<open>|control_error_delta_r|\<close> is exactly \<open>1e-3\<close>; and when it is
  taken the state stays DeltaR and \<open>suggested_time_scale\<close> is set to
  \<open>damping_time * 0.99\<close> (\<open>9.9\<close> for \<open>damping_time = 10.0\<close>).
\<close>

theorem DeltaR_update_shrink_branch:
  assumes "\<not> delta_radius_is_in_danger info crossing_time_info"
    and "\<not> char_speed_is_in_danger info crossing_time_info"
    and "state info = DeltaR"
  shows "(names_shrink_branch (snd (DeltaR_update info update_args crossing_time_info)) \<longleftrightarrow>
            double_less double_zero (min_comoving_char_speed update_args) \<and>
            double_less delta_r_control_error_threshold
              (double_abs (StateUpdateArgs.control_error_delta_r update_args))) \<and>
         (double_abs (StateUpdateArgs.control_error_delta_r update_args) =
            delta_r_control_error_threshold \<longrightarrow>
          \<not> names_shrink_branch (snd (DeltaR_update info update_args crossing_time_info))) \<and>
         (names_shrink_branch (snd (DeltaR_update info update_args crossing_time_info)) \<longrightarrow>
          state (fst (DeltaR_update info update_args crossing_time_info)) = DeltaR \<and>
          suggested_time_scale (fst (DeltaR_update info update_args crossing_time_info)) =
            Some (double_mult (damping_time info) delta_r_state_decrease_factor))"
  using assms double_less_irrefl [of delta_r_control_error_threshold]
  by (auto simp add: DeltaR_update_def names_shrink_branch_def)

theorem DeltaR_update_shrink_branch_scenario:
  "\<not> delta_radius_is_in_danger scenario_info no_crossing \<and>
   \<not> char_speed_is_in_danger scenario_info no_crossing \<and>
   state scenario_info = DeltaR \<and>
   double_less double_zero (min_comoving_char_speed large_error_args) \<and>
   double_less delta_r_control_error_threshold
     (double_abs (StateUpdateArgs.control_error_delta_r large_error_args)) \<and>
   names_shrink_branch (snd (DeltaR_update scenario_info large_error_args no_crossing)) \<and>
   state (fst (DeltaR_update scenario_info large_error_args no_crossing)) = DeltaR \<and>
   suggested_time_scale (fst (DeltaR_update scenario_info large_error_args no_crossing)) =
     Some double_9_9 \<and>
   \<not> names_shrink_branch (snd (DeltaR_update scenario_info threshold_error_args no_crossing))"
proof -
  have d1: "\<not> delta_radius_is_in_danger scenario_info no_crossing"
    by (simp add: delta_radius_is_in_danger_def no_crossing_def)
  have d2: "\<not> char_speed_is_in_danger scenario_info no_crossing"
    by (simp add: char_speed_is_in_danger_def no_crossing_def)
  have st: "state scenario_info = DeltaR"
    by (simp add: scenario_info_def)
  have positive: "double_less double_zero (min_comoving_char_speed large_error_args)"
    by (simp add: large_error_args_def scenario_doubles double_eval)
  have large: "double_less delta_r_control_error_threshold
      (double_abs (StateUpdateArgs.control_error_delta_r large_error_args))"
    by (simp add: large_error_args_def double_abs_def scenario_doubles double_eval)
  have at_threshold: "double_abs (StateUpdateArgs.control_error_delta_r threshold_error_args) =
      delta_r_control_error_threshold"
    by (simp add: threshold_error_args_def double_abs_def delta_r_control_error_threshold_def)
  have ten: "damping_time scenario_info = double_10_0"
    by (simp add: scenario_info_def)
  from DeltaR_update_shrink_branch [OF d1 d2 st, where update_args = large_error_args]
    DeltaR_update_shrink_branch [OF d1 d2 st, where update_args = threshold_error_args]
    d1 d2 st positive large at_threshold
  show ?thesis
    by (simp add: ten double_mult_10_by_099 double_less_irrefl)
qed

section \<open>The suggested time scale\<close>

text \<open>
  C9: when \<open>damping_time\<close> is positive and finite and the predicted crossing times
  \<open>t_char_speed\<close> and \<open>t_delta_radius\<close> are absent or positive and finite,
  \<open>DeltaR::update\<close> preserves the invariant of \<open>Info\<close>: \<open>suggested_time_scale\<close>, when
  it is set after the call, is positive and finite.
\<close>

theorem DeltaR_update_time_scale_positive_finite:
  assumes "positive_finite (damping_time info)"
    and "absent_or_positive_finite (t_char_speed crossing_time_info)"
    and "absent_or_positive_finite (t_delta_radius crossing_time_info)"
    and "absent_or_positive_finite (suggested_time_scale info)"
  shows "absent_or_positive_finite
           (suggested_time_scale (fst (DeltaR_update info update_args crossing_time_info)))"
proof -
  have "absent_or_positive_finite
      (Some (double_mult (damping_time info) delta_r_state_decrease_factor))"
    using assms(1) by (simp add: absent_or_positive_finite_def double_mult_099_positive_finite)
  with assms(2-4) show ?thesis
    by (simp add: DeltaR_update_def Let_def)
qed

theorem DeltaR_update_time_scale_positive_finite_scenario:
  "positive_finite (damping_time scenario_info) \<and>
   absent_or_positive_finite (t_char_speed no_crossing) \<and>
   absent_or_positive_finite (t_delta_radius no_crossing) \<and>
   absent_or_positive_finite (suggested_time_scale scenario_info) \<and>
   suggested_time_scale (fst (DeltaR_update scenario_info large_error_args no_crossing)) =
     Some double_9_9 \<and>
   positive_finite double_9_9"
proof -
  have h1: "positive_finite (damping_time scenario_info)"
    by (simp add: positive_finite_def is_finite_def scenario_info_def scenario_doubles
        double_eval)
  have h2: "absent_or_positive_finite (t_char_speed no_crossing)"
    and h3: "absent_or_positive_finite (t_delta_radius no_crossing)"
    by (simp_all add: absent_or_positive_finite_def no_crossing_def)
  have h4: "absent_or_positive_finite (suggested_time_scale scenario_info)"
    by (simp add: absent_or_positive_finite_def positive_finite_def is_finite_def
        scenario_info_def scenario_doubles double_eval)
  have positive: "double_less double_zero (min_comoving_char_speed large_error_args)"
    by (simp add: large_error_args_def scenario_doubles double_eval)
  have large: "double_less delta_r_control_error_threshold
      (double_abs (StateUpdateArgs.control_error_delta_r large_error_args))"
    by (simp add: large_error_args_def double_abs_def scenario_doubles double_eval)
  have set: "suggested_time_scale
      (fst (DeltaR_update scenario_info large_error_args no_crossing)) = Some double_9_9"
    using positive large
    by (simp add: DeltaR_update_def char_speed_is_in_danger_def delta_radius_is_in_danger_def
        no_crossing_def scenario_info_def double_mult_10_by_099)
  from DeltaR_update_time_scale_positive_finite
    [OF h1 h2 h3 h4, where update_args = large_error_args]
  have "positive_finite double_9_9"
    by (simp add: set absent_or_positive_finite_def)
  with h1 h2 h3 h4 set show ?thesis
    by simp
qed

text \<open>
  The branches that assign to \<open>suggested_time_scale\<close> are the ones whose trace reports
  the suggested time scale.
\<close>

lemma assigns_suggested_time_scale_iff_reported:
  "assigns_suggested_time_scale info update_args crossing_time_info \<longleftrightarrow>
     Text '' Suggested timescale = ''
       \<in> set (snd (DeltaR_update info update_args crossing_time_info))"
  by (simp add: assigns_suggested_time_scale_def DeltaR_update_def Let_def
      split: prod.splits)

text \<open>
  C10, as stated: for every input with \<open>damping_time > 0\<close>, a value that
  \<open>DeltaR::update\<close> assigns to \<open>suggested_time_scale\<close> is strictly less than
  \<open>damping_time\<close>. It fails for the smallest positive \<open>damping_time\<close>: the third branch
  assigns \<open>damping_time * 0.99\<close>, which rounds back to \<open>damping_time\<close>.
\<close>

theorem DeltaR_update_tiny_damping_time_not_shrunk:
  "double_less double_zero (damping_time tiny_damping_info) \<and>
   assigns_suggested_time_scale tiny_damping_info large_error_args no_crossing \<and>
   suggested_time_scale tiny_damping_info = None \<and>
   suggested_time_scale (fst (DeltaR_update tiny_damping_info large_error_args no_crossing)) =
     Some (damping_time tiny_damping_info) \<and>
   \<not> double_less (damping_time tiny_damping_info) (damping_time tiny_damping_info)"
proof -
  have pos: "double_less double_zero (damping_time tiny_damping_info)"
    by (simp add: tiny_damping_info_def denorm_min_def double_eval)
  have positive: "double_less double_zero (min_comoving_char_speed large_error_args)"
    by (simp add: large_error_args_def scenario_doubles double_eval)
  have large: "double_less delta_r_control_error_threshold
      (double_abs (StateUpdateArgs.control_error_delta_r large_error_args))"
    by (simp add: large_error_args_def double_abs_def scenario_doubles double_eval)
  have "suggested_time_scale
      (fst (DeltaR_update tiny_damping_info large_error_args no_crossing)) =
      Some (damping_time tiny_damping_info)"
    using positive large
    by (simp add: DeltaR_update_def char_speed_is_in_danger_def delta_radius_is_in_danger_def
        no_crossing_def tiny_damping_info_def double_mult_denorm_min_by_099)
  with pos positive large show ?thesis
    by (simp add: assigns_suggested_time_scale_def double_less_irrefl)
      (simp add: tiny_damping_info_def)
qed

text \<open>
  C10, amended: for every input with \<open>damping_time > 0\<close>, \<open>damping_time\<close> is not
  modified, in whichever branch; and a value that \<open>DeltaR::update\<close> assigns to
  \<open>suggested_time_scale\<close> is never above \<open>damping_time\<close>; it is strictly less than \<open>damping_time\<close> in the two danger
  branches, and in the third branch too when \<open>damping_time\<close> is finite and at least
  \<open>50 * 2 ^ -1074\<close>.
\<close>

theorem DeltaR_update_time_scale_below_damping_time:
  assumes pos: "double_less double_zero (damping_time info)"
  shows "damping_time (fst (DeltaR_update info update_args crossing_time_info)) =
           damping_time info \<and>
         (assigns_suggested_time_scale info update_args crossing_time_info \<longrightarrow>
          (\<exists>t. suggested_time_scale
                 (fst (DeltaR_update info update_args crossing_time_info)) = Some t \<and>
               double_le t (damping_time info) \<and>
               (char_speed_is_in_danger info crossing_time_info \<or>
                delta_radius_is_in_danger info crossing_time_info \<or>
                is_finite (damping_time info) \<and>
                double_le fifty_denorm_min (damping_time info)
                \<longrightarrow> double_less t (damping_time info))))"
proof (intro conjI impI)
  let ?U = "fst (DeltaR_update info update_args crossing_time_info)"
  show "damping_time ?U = damping_time info"
    by (simp add: DeltaR_update_def Let_def)
  assume assigns: "assigns_suggested_time_scale info update_args crossing_time_info"
  have le: "double_le (double_mult (damping_time info) delta_r_state_decrease_factor)
      (damping_time info)"
    using pos by (rule double_mult_099_le)
  consider
    (char_speed) "char_speed_is_in_danger info crossing_time_info"
    | (delta_radius) "\<not> char_speed_is_in_danger info crossing_time_info"
        "delta_radius_is_in_danger info crossing_time_info"
    | (shrink) "\<not> char_speed_is_in_danger info crossing_time_info"
        "\<not> delta_radius_is_in_danger info crossing_time_info"
        "double_less double_zero (min_comoving_char_speed update_args) \<and>
         double_less delta_r_control_error_threshold
           (double_abs (StateUpdateArgs.control_error_delta_r update_args))"
    using assigns by (auto simp add: assigns_suggested_time_scale_def)
  then show "\<exists>t. suggested_time_scale ?U = Some t \<and>
      double_le t (damping_time info) \<and>
      (char_speed_is_in_danger info crossing_time_info \<or>
       delta_radius_is_in_danger info crossing_time_info \<or>
       is_finite (damping_time info) \<and> double_le fifty_denorm_min (damping_time info)
       \<longrightarrow> double_less t (damping_time info))"
  proof cases
    case char_speed
    then have "double_less (value_or (t_char_speed crossing_time_info) double_infinity)
        (damping_time info)"
      by (simp add: char_speed_is_in_danger_def)
    then obtain t where t: "t_char_speed crossing_time_info = Some t"
      and less: "double_less t (damping_time info)"
      by (cases "t_char_speed crossing_time_info")
        (simp_all add: value_or_def not_less_infinity)
    from char_speed have "suggested_time_scale ?U = Some t"
      by (simp add: DeltaR_update_def Let_def t split: prod.splits)
    with less show ?thesis
      by (simp add: double_less_imp_le)
  next
    case delta_radius
    then have "double_less (value_or (t_delta_radius crossing_time_info) double_infinity)
        (double_mult (damping_time info) delta_r_state_decrease_factor)"
      by (simp add: delta_radius_is_in_danger_def tolerance_is_decrease_factor)
    then obtain t where t: "t_delta_radius crossing_time_info = Some t"
      and "double_less t (double_mult (damping_time info) delta_r_state_decrease_factor)"
      by (cases "t_delta_radius crossing_time_info")
        (simp_all add: value_or_def not_less_infinity)
    then have less: "double_less t (damping_time info)"
      using le by (simp add: double_less_le_trans)
    from delta_radius have "suggested_time_scale ?U = Some t"
      by (simp add: DeltaR_update_def t)
    with less show ?thesis
      by (simp add: double_less_imp_le)
  next
    case shrink
    then have "suggested_time_scale ?U =
        Some (double_mult (damping_time info) delta_r_state_decrease_factor)"
      by (simp add: DeltaR_update_def)
    moreover have "double_less (double_mult (damping_time info) delta_r_state_decrease_factor)
        (damping_time info)"
      if "is_finite (damping_time info)" "double_le fifty_denorm_min (damping_time info)"
      using that pos by (intro double_mult_099_less) (simp_all add: positive_finite_def)
    ultimately show ?thesis
      using le shrink(1,2) by simp
  qed
qed

theorem DeltaR_update_time_scale_below_damping_time_scenario:
  "double_less double_zero (damping_time scenario_info) \<and>
   assigns_suggested_time_scale scenario_info large_error_args no_crossing \<and>
   is_finite (damping_time scenario_info) \<and>
   double_le fifty_denorm_min (damping_time scenario_info) \<and>
   damping_time (fst (DeltaR_update scenario_info large_error_args no_crossing)) =
     double_10_0 \<and>
   suggested_time_scale (fst (DeltaR_update scenario_info large_error_args no_crossing)) =
     Some double_9_9 \<and>
   double_less double_9_9 double_10_0 \<and>
   \<not> assigns_suggested_time_scale scenario_info threshold_error_args no_crossing \<and>
   damping_time (fst (DeltaR_update scenario_info threshold_error_args no_crossing)) =
     double_10_0"
proof -
  have ten: "damping_time scenario_info = double_10_0"
    by (simp add: scenario_info_def)
  have pos: "double_less double_zero (damping_time scenario_info)"
    and fin: "is_finite (damping_time scenario_info)"
    and big: "double_le fifty_denorm_min (damping_time scenario_info)"
    by (simp_all add: ten is_finite_def fifty_denorm_min_def scenario_doubles double_eval)
  have positive: "double_less double_zero (min_comoving_char_speed large_error_args)"
    by (simp add: large_error_args_def scenario_doubles double_eval)
  have large: "double_less delta_r_control_error_threshold
      (double_abs (StateUpdateArgs.control_error_delta_r large_error_args))"
    by (simp add: large_error_args_def double_abs_def scenario_doubles double_eval)
  from positive large
  have assigns: "assigns_suggested_time_scale scenario_info large_error_args no_crossing"
    by (simp add: assigns_suggested_time_scale_def)
  have at_threshold: "double_abs (StateUpdateArgs.control_error_delta_r threshold_error_args) =
      delta_r_control_error_threshold"
    by (simp add: threshold_error_args_def double_abs_def delta_r_control_error_threshold_def)
  have none: "\<not> assigns_suggested_time_scale scenario_info threshold_error_args no_crossing"
    by (simp add: assigns_suggested_time_scale_def char_speed_is_in_danger_def
        delta_radius_is_in_danger_def no_crossing_def at_threshold double_less_irrefl)
  have set: "suggested_time_scale
      (fst (DeltaR_update scenario_info large_error_args no_crossing)) = Some double_9_9"
    using positive large
    by (simp add: DeltaR_update_def char_speed_is_in_danger_def delta_radius_is_in_danger_def
        no_crossing_def scenario_info_def double_mult_10_by_099)
  from DeltaR_update_time_scale_below_damping_time
    [OF pos, where update_args = large_error_args and crossing_time_info = no_crossing]
    assigns fin big
  have "damping_time (fst (DeltaR_update scenario_info large_error_args no_crossing)) =
      double_10_0 \<and> double_less double_9_9 double_10_0"
    by (simp add: set ten)
  moreover from DeltaR_update_time_scale_below_damping_time
    [OF pos, where update_args = threshold_error_args and crossing_time_info = no_crossing]
  have "damping_time (fst (DeltaR_update scenario_info threshold_error_args no_crossing)) =
      double_10_0"
    by (simp add: ten)
  ultimately show ?thesis
    using pos assigns fin big set none by simp
qed

section \<open>The control error\<close>

text \<open>
  C8: \<open>DeltaR::control_error\<close> returns \<open>control_error_args.control_error_delta_r\<close>
  unchanged, whatever the \<open>Info\<close> is; it reads nothing else and writes nothing, so two
  calls with the same arguments return the same value.
\<close>

theorem DeltaR_control_error_is_delta_r:
  "DeltaR_control_error info control_error_args =
     ControlErrorArgs.control_error_delta_r control_error_args \<and>
   DeltaR_control_error info control_error_args =
     DeltaR_control_error info' control_error_args"
  by (simp add: DeltaR_control_error_def)

end
